theory Spec2Isabelle
  imports Complex_Main
begin

section \<open>Strings\<close>

text \<open>
  A JavaScript string is a sequence of UTF-16 code units. The model covers the code units
  below 256, one \<^typ>\<open>char\<close> each (Latin-1). \<open>trim\<close> strips white space and line
  terminators from both ends; in that range these are TAB, LF, VT, FF, CR, SPACE and the
  no-break space. \<open>toLowerCase\<close> maps A-Z and the Latin-1 capitals (0xC0-0xDE without the
  multiplication sign 0xD7) to the letter 32 code units above.
\<close>

definition isWhiteSpace :: "char \<Rightarrow> bool" where
  "isWhiteSpace c =
     (c \<in> set [CHR 0x09, CHR 0x0A, CHR 0x0B, CHR 0x0C, CHR 0x0D, CHR 0x20, CHR 0xA0])"

definition trim :: "string \<Rightarrow> string" where
  "trim s = rev (dropWhile isWhiteSpace (rev (dropWhile isWhiteSpace s)))"

definition toLowerCase_unit :: "char \<Rightarrow> char" where
  "toLowerCase_unit c =
     (let n = (of_char c :: nat)
      in if (65 \<le> n \<and> n \<le> 90) \<or> (192 \<le> n \<and> n \<le> 222 \<and> n \<noteq> 215)
         then char_of (n + 32) else c)"

definition toLowerCase :: "string \<Rightarrow> string" where
  "toLowerCase s = map toLowerCase_unit s"

fun join :: "string \<Rightarrow> string list \<Rightarrow> string" where
  "join sep [] = []"
| "join sep [x] = x"
| "join sep (x # y # ys) = x @ sep @ join sep (y # ys)"

section \<open>Errors\<close>

text \<open>
  Every \<open>throw\<close> and every rejected promise of the source is a value \<open>Inl e\<close> of a
  result type \<open>error + 'a\<close>.
\<close>

datatype error = Error string | TypeError string | DatabaseError string

section \<open>Tool definitions (types.ts)\<close>

text \<open>
  The Zod schema of a tool is used by this program only through the JSON text of its
  shape, which stands for it here. The fields \<open>id\<close> and \<open>keywords\<close> carry a prime, since
  the plain names are taken in Isabelle.
\<close>

record ToolDefinition =
  id' :: string
  name :: string
  description :: string
  keywords' :: "string list"
  parameters :: string
  execute :: "string \<Rightarrow> error + string"

section \<open>The JavaScript Map\<close>

text \<open>
  A \<open>Map\<close> iterates in insertion order, and \<open>set\<close> on a key that is present replaces the
  value and keeps the key's position. It is an association list with unique keys.
\<close>

type_synonym ('k, 'v) js_map = "('k \<times> 'v) list"

fun Map_set :: "'k \<Rightarrow> 'v \<Rightarrow> ('k, 'v) js_map \<Rightarrow> ('k, 'v) js_map" where
  "Map_set k v [] = [(k, v)]"
| "Map_set k v ((k', v') # m) =
     (if k' = k then (k', v) # m else (k', v') # Map_set k v m)"

definition Map_get :: "('k, 'v) js_map \<Rightarrow> 'k \<Rightarrow> 'v option" where
  "Map_get m k = map_of m k"

definition new_Map :: "('k \<times> 'v) list \<Rightarrow> ('k, 'v) js_map" where
  "new_Map entries = foldl (\<lambda>m (k, v). Map_set k v m) [] entries"

definition Map_values :: "('k, 'v) js_map \<Rightarrow> 'v list" where
  "Map_values m = map snd m"

text \<open>\<open>xs.splice(start, deleteCount, ...items)\<close>, for \<open>start\<close> within the array.\<close>

definition array_splice :: "nat \<Rightarrow> nat \<Rightarrow> 'a list \<Rightarrow> 'a list \<Rightarrow> 'a list" where
  "array_splice start deleteCount items xs =
     take start xs @ items @ drop (start + deleteCount) xs"

section \<open>The tool registry (registry.ts)\<close>

type_synonym ToolRegistry = "(string, ToolDefinition) js_map"

definition register :: "ToolRegistry \<Rightarrow> ToolDefinition \<Rightarrow> ToolRegistry" where
  "register tools tool = Map_set (id' tool) tool tools"

definition get :: "ToolRegistry \<Rightarrow> string \<Rightarrow> ToolDefinition option" where
  "get tools toolId = Map_get tools toolId"

text \<open>
  \<open>toolIds.map((id) => this.get(id)).filter((tool) => tool !== undefined)\<close>: the filter is
  a type guard, after it every element is a tool.
\<close>

definition getMultiple :: "ToolRegistry \<Rightarrow> string list \<Rightarrow> ToolDefinition list" where
  "getMultiple tools toolIds =
     map the (filter (\<lambda>tool. tool \<noteq> None) (map (\<lambda>id. get tools id) toolIds))"

section \<open>The embedding model (embedding.ts)\<close>

text \<open>
  The FastEmbed model is an external collaborator: \<open>embed(texts)\<close> gives a generator,
  and its first \<open>next()\<close> either rejects or yields \<open>{done, value}\<close>, the value a batch of
  vectors. Numbers are modelled as reals.
\<close>

type_synonym vec = "real list"

datatype iterator_result = IteratorResult (is_done: bool) (batch: "vec list option")

type_synonym FlagEmbedding = "string list \<Rightarrow> error + iterator_result"

section \<open>The store (database.ts)\<close>

text \<open>
  One row of \<open>tool_embeddings\<close>. The columns \<open>id\<close> (a serial surrogate key) and
  \<open>created_at\<close> (a default timestamp) are filled by the store on insert; the program
  neither writes nor reads them, and they are left out. The column \<open>tool_definition\<close>
  holds the JSON object of id, name, description and keywords. The statements are
  modelled by what SQL says they compute on the table; what the store checks or does
  besides (the dimension 384 of a vector, connection faults, the recall of the
  approximate index) is outside the model.
\<close>

record tool_embeddings_row =
  tool_id :: string
  tool_name :: string
  col_description :: string
  col_keywords :: "string list"
  col_parameters :: string
  tool_definition :: "string \<times> string \<times> string \<times> string list"
  embedding :: vec

text \<open>
  The module-level state of the process and the collaborators it calls:
  what \<open>FlagEmbedding.init\<close> yields, the variable \<open>embeddingModel\<close> of embedding.ts,
  pgvector's cosine distance operator \<open><=>\<close>, and the variable \<open>pool\<close> of database.ts
  with the table it is connected to (\<open>None\<close> while the pool is \<open>null\<close>).
\<close>

record runtime =
  FlagEmbedding_init :: "error + FlagEmbedding"
  embeddingModel :: "FlagEmbedding option"
  distance :: "vec \<Rightarrow> vec \<Rightarrow> real"
  pool :: "tool_embeddings_row list option"

definition initializeEmbeddingModel :: "runtime \<Rightarrow> error + runtime" where
  "initializeEmbeddingModel rt =
     (case embeddingModel rt of
        Some m \<Rightarrow> Inr rt
      | None \<Rightarrow>
          (case FlagEmbedding_init rt of
             Inl e \<Rightarrow> Inl e
           | Inr m \<Rightarrow> Inr (rt\<lparr>embeddingModel := Some m\<rparr>)))"

text \<open>
  \<open>generateEmbedding\<close> initialises the model when there is none yet. The model it then
  stores is the one \<open>FlagEmbedding_init\<close> gives, so a later call computes with the same
  model; the function returns the vector only.
\<close>

definition generateEmbedding :: "runtime \<Rightarrow> string \<Rightarrow> error + vec" where
  "generateEmbedding rt text =
     (case initializeEmbeddingModel rt of
        Inl e \<Rightarrow> Inl e
      | Inr rt' \<Rightarrow>
          (case embeddingModel rt' of
             None \<Rightarrow> Inl (Error ''Embedding model not initialized'')
           | Some m \<Rightarrow>
               (case m [text] of
                  Inl e \<Rightarrow> Inl e
                | Inr result \<Rightarrow>
                    (if is_done result \<or> batch result = None
                     then Inl (Error ''Failed to generate embedding'')
                     else (case the (batch result) of
                             [] \<Rightarrow> Inl (Error ''Empty batch returned from embedding model'')
                           | v # _ \<Rightarrow> Inr v)))))"

text \<open>
  \<open>CREATE TABLE IF NOT EXISTS\<close>: \<open>server\<close> is the table as the database server holds it
  when the pool connects, \<open>None\<close> when it does not exist yet.
\<close>

definition initDatabase :: "runtime \<Rightarrow> tool_embeddings_row list option \<Rightarrow> runtime" where
  "initDatabase rt server =
     (case pool rt of
        Some table \<Rightarrow> rt
      | None \<Rightarrow> rt\<lparr>pool := Some (case server of None \<Rightarrow> [] | Some table \<Rightarrow> table)\<rparr>)"

text \<open>The select list's \<open>1 - (embedding <=> $1::vector) as similarity\<close>.\<close>

definition similarity :: "runtime \<Rightarrow> vec \<Rightarrow> tool_embeddings_row \<Rightarrow> real" where
  "similarity rt q r = 1 - distance rt (embedding r) q"

text \<open>
  The SELECT statement of \<open>findRelevantTools\<close>: WHERE keeps the rows whose similarity is
  greater than \<open>$2\<close>, ORDER BY sorts by distance ascending (rows of equal distance stay
  in table order here; SQL leaves their order open), LIMIT keeps the first \<open>$3\<close> rows and
  rejects a negative count. The rows it returns are
  (tool_id, tool_name, description, similarity).
\<close>

definition select_similar ::
  "runtime \<Rightarrow> tool_embeddings_row list \<Rightarrow> vec \<Rightarrow> real \<Rightarrow> int \<Rightarrow>
   error + (string \<times> string \<times> string \<times> real) list" where
  "select_similar rt table q threshold row_limit =
     (if row_limit < 0 then Inl (DatabaseError ''LIMIT must not be negative'')
      else Inr (map (\<lambda>r. (tool_id r, tool_name r, col_description r, similarity rt q r))
                 (take (nat row_limit)
                   (sort_key (\<lambda>r. distance rt (embedding r) q)
                     (filter (\<lambda>r. similarity rt q r > threshold) table)))))"

text \<open>
  \<open>topK\<close> and \<open>similarityThreshold\<close> are optional, with defaults 5 and 0.7. With a
  \<open>null\<close> pool, \<open>pool?.query\<close> is \<open>undefined\<close> and reading its \<open>rows\<close> throws.
\<close>

definition findRelevantTools ::
  "runtime \<Rightarrow> string \<Rightarrow> int option \<Rightarrow> real option \<Rightarrow> error + (string \<times> real) list" where
  "findRelevantTools rt userPrompt topK similarityThreshold =
     (case generateEmbedding rt userPrompt of
        Inl e \<Rightarrow> Inl e
      | Inr queryEmbedding \<Rightarrow>
          (case pool rt of
             None \<Rightarrow> Inl (TypeError ''Cannot read properties of undefined'')
           | Some table \<Rightarrow>
               (case select_similar rt table queryEmbedding
                       (case similarityThreshold of None \<Rightarrow> 7 / 10 | Some t \<Rightarrow> t)
                       (case topK of None \<Rightarrow> 5 | Some k \<Rightarrow> k) of
                  Inl e \<Rightarrow> Inl e
                | Inr rows \<Rightarrow>
                    Inr (map (\<lambda>(row_tool_id, row_tool_name, row_description, row_similarity).
                               (row_tool_id, row_similarity)) rows))))"

definition searchableText :: "ToolDefinition \<Rightarrow> string" where
  "searchableText tool =
     trim ([CHR 0x0A] @ ''    '' @ name tool @ [CHR 0x0A] @ ''    '' @ description tool @
           [CHR 0x0A] @ ''    '' @ join '' '' (keywords' tool) @ [CHR 0x0A] @ ''  '')"

text \<open>
  \<open>INSERT ... ON CONFLICT (tool_id) DO UPDATE SET ...\<close>: the row with the same
  \<open>tool_id\<close> is updated where it stands, otherwise the new row is added.
\<close>

fun upsert :: "tool_embeddings_row \<Rightarrow> tool_embeddings_row list \<Rightarrow> tool_embeddings_row list" where
  "upsert new [] = [new]"
| "upsert new (r # table) =
     (if tool_id r = tool_id new
      then r\<lparr>tool_name := tool_name new,
             col_description := col_description new,
             col_keywords := col_keywords new,
             col_parameters := col_parameters new,
             tool_definition := tool_definition new,
             embedding := embedding new\<rparr> # table
      else r # upsert new table)"

text \<open>The \<open>VALUES\<close> of the insert: the parameters \<open>$1\<close> to \<open>$7\<close> of the statement.\<close>

definition row_of :: "ToolDefinition \<Rightarrow> vec \<Rightarrow> tool_embeddings_row" where
  "row_of tool v =
     \<lparr>tool_id = id' tool,
      tool_name = name tool,
      col_description = description tool,
      col_keywords = keywords' tool,
      col_parameters = parameters tool,
      tool_definition = (id' tool, name tool, description tool, keywords' tool),
      embedding = v\<rparr>"

text \<open>With a \<open>null\<close> pool, \<open>pool?.query\<close> does nothing and the call returns normally.\<close>

definition registerToolInDatabase :: "runtime \<Rightarrow> ToolDefinition \<Rightarrow> error + runtime" where
  "registerToolInDatabase rt tool =
     (case generateEmbedding rt (searchableText tool) of
        Inl e \<Rightarrow> Inl e
      | Inr v \<Rightarrow>
          (case pool rt of
             None \<Rightarrow> Inr rt
           | Some table \<Rightarrow> Inr (rt\<lparr>pool := Some (upsert (row_of tool v) table)\<rparr>)))"

section \<open>The tool service (toolService.ts)\<close>

text \<open>
  The service's state is its registry together with the runtime. A failed registration
  leaves the state as far as it got: the result is the state and the error, if any.
\<close>

definition registerTool ::
  "ToolRegistry \<times> runtime \<Rightarrow> ToolDefinition \<Rightarrow> (ToolRegistry \<times> runtime) \<times> error option" where
  "registerTool s tool =
     (let toolRegistry = register (fst s) tool
      in case registerToolInDatabase (snd s) tool of
           Inl e \<Rightarrow> ((toolRegistry, snd s), Some e)
         | Inr rt \<Rightarrow> ((toolRegistry, rt), None))"

fun setupAllTools ::
  "ToolRegistry \<times> runtime \<Rightarrow> ToolDefinition list \<Rightarrow> (ToolRegistry \<times> runtime) \<times> error option" where
  "setupAllTools s [] = (s, None)"
| "setupAllTools s (tool # demoTools) =
     (case registerTool s tool of
        (s', Some e) \<Rightarrow> (s', Some e)
      | (s', None) \<Rightarrow> setupAllTools s' demoTools)"

section \<open>The agent (agent.ts)\<close>

record search_config =
  defaultTopK :: int
  defaultSimilarityThreshold :: real

text \<open>
  The merge of \<open>handlePrompt\<close>:
  \<open>[...new Map([...pastTools, ...relevantTools].map((t) => [t.id, t])).values()]\<close>.
\<close>

definition mergedTools :: "ToolDefinition list \<Rightarrow> ToolDefinition list \<Rightarrow> ToolDefinition list" where
  "mergedTools pastTools relevantTools =
     Map_values (new_Map (map (\<lambda>t. (id' t, t)) (pastTools @ relevantTools)))"

text \<open>
  \<open>createDynamicAgent(pastTools)\<close> followed by \<open>agent.generate(prompt, ...)\<close> is the
  external collaborator \<open>agent\<close>: from the tools, the user and the prompt it gives the
  reply or fails. \<open>handlePrompt\<close> changes the array \<open>pastTools\<close> in place, so the model
  returns the array as the call leaves it, also when the call throws, together with the
  reply or the error rethrown by the \<open>catch\<close> block.
\<close>

type_synonym agent = "ToolDefinition list \<Rightarrow> string \<Rightarrow> string \<Rightarrow> error + string"

definition handlePrompt ::
  "search_config \<Rightarrow> agent \<Rightarrow> string \<Rightarrow> string \<Rightarrow> ToolDefinition list \<Rightarrow>
   (string \<Rightarrow> int \<Rightarrow> real \<Rightarrow> error + (string \<times> real) list) \<Rightarrow>
   (string list \<Rightarrow> ToolDefinition list) \<Rightarrow> ToolDefinition list \<times> (error + string)" where
  "handlePrompt config agent userID prompt pastTools findRelevantTools' toolRegistry_getMultiple =
     (case findRelevantTools' prompt (defaultTopK config) (defaultSimilarityThreshold config) of
        Inl e \<Rightarrow> (pastTools, Inl e)
      | Inr tools \<Rightarrow>
          (let relevantTools = toolRegistry_getMultiple (map fst tools);
               pastTools' = array_splice 0 (length pastTools) (mergedTools pastTools relevantTools) pastTools
           in (pastTools', agent pastTools' userID prompt)))"

section \<open>The entry point (the refactored \<open>main\<close>)\<close>

text \<open>
  How a run over the lines typed so far stands: the process has exited with a status,
  it has died of a rejected promise nobody handles, or it waits at the prompt for the
  next line. A run also gives its turns: each line handed to \<open>handlePrompt\<close>, with
  \<open>pastTools\<close> as that call left it.
\<close>

datatype status = Exited int | UnhandledRejection error | AwaitingInput

type_synonym turns = "(string \<times> ToolDefinition list) list"

text \<open>
  The \<open>while (true)\<close> loop of \<open>main\<close>, one line per round. \<open>break\<close> reaches the
  \<open>finally\<close> block and \<open>process.exit(0)\<close>; an error of \<open>handlePrompt\<close> reaches the
  \<open>catch\<close> block of \<open>main\<close> and \<open>process.exit(1)\<close>.
\<close>

fun main_loop ::
  "search_config \<Rightarrow> agent \<Rightarrow> runtime \<Rightarrow> ToolRegistry \<Rightarrow> ToolDefinition list \<Rightarrow> string list \<Rightarrow>
   status \<times> turns" where
  "main_loop config agent rt toolRegistry pastTools [] = (AwaitingInput, [])"
| "main_loop config agent rt toolRegistry pastTools (text # lines) =
     (if toLowerCase (trim text) = ''exit'' then (Exited 0, [])
      else if trim text \<noteq> [] then
        (case handlePrompt config agent ''user1'' text pastTools
                (\<lambda>prompt topK threshold. findRelevantTools rt prompt (Some topK) (Some threshold))
                (getMultiple toolRegistry) of
           (pastTools', Inl e) \<Rightarrow> (Exited 1, [(text, pastTools')])
         | (pastTools', Inr reply) \<Rightarrow>
             (case main_loop config agent rt toolRegistry pastTools' lines of
                (st, ts) \<Rightarrow> (st, (text, pastTools') # ts)))
      else main_loop config agent rt toolRegistry pastTools lines)"

text \<open>
  \<open>main\<close>: the start-up (any failure there exits with status 1), then the loop from an
  empty \<open>pastTools\<close>. \<open>demoTools\<close> is the static tool set.
\<close>

definition main ::
  "search_config \<Rightarrow> agent \<Rightarrow> runtime \<Rightarrow> tool_embeddings_row list option \<Rightarrow>
   ToolDefinition list \<Rightarrow> string list \<Rightarrow> status \<times> turns" where
  "main config agent rt server demoTools lines =
     (case initializeEmbeddingModel rt of
        Inl e \<Rightarrow> (Exited 1, [])
      | Inr rt1 \<Rightarrow>
          (case setupAllTools ([], initDatabase rt1 server) demoTools of
             (s, Some e) \<Rightarrow> (Exited 1, [])
           | ((toolRegistry, rt2), None) \<Rightarrow> main_loop config agent rt2 toolRegistry [] lines))"

section \<open>The legacy entry point (main.ts)\<close>

text \<open>
  main.ts holds its own copies of the pool, of \<open>findRelevantTools\<close> and of
  \<open>handlePrompt\<close>; it searches with the constants 3 and 0.6 and reads the module's
  registry.
\<close>

definition findRelevantTools_main_ts ::
  "runtime \<Rightarrow> string \<Rightarrow> int option \<Rightarrow> real option \<Rightarrow> error + (string \<times> real) list" where
  "findRelevantTools_main_ts rt userPrompt topK similarityThreshold =
     (case generateEmbedding rt userPrompt of
        Inl e \<Rightarrow> Inl e
      | Inr queryEmbedding \<Rightarrow>
          (case pool rt of
             None \<Rightarrow> Inl (TypeError ''Cannot read properties of undefined'')
           | Some table \<Rightarrow>
               (case select_similar rt table queryEmbedding
                       (case similarityThreshold of None \<Rightarrow> 7 / 10 | Some t \<Rightarrow> t)
                       (case topK of None \<Rightarrow> 5 | Some k \<Rightarrow> k) of
                  Inl e \<Rightarrow> Inl e
                | Inr rows \<Rightarrow>
                    Inr (map (\<lambda>(row_tool_id, row_tool_name, row_description, row_similarity).
                               (row_tool_id, row_similarity)) rows))))"

definition handlePrompt_main_ts ::
  "agent \<Rightarrow> runtime \<Rightarrow> ToolRegistry \<Rightarrow> string \<Rightarrow> string \<Rightarrow> ToolDefinition list \<Rightarrow>
   ToolDefinition list \<times> (error + string)" where
  "handlePrompt_main_ts agent rt toolRegistry userID prompt pastTools =
     (case findRelevantTools_main_ts rt prompt (Some 3) (Some (6 / 10)) of
        Inl e \<Rightarrow> (pastTools, Inl e)
      | Inr tools \<Rightarrow>
          (let relevantTools = getMultiple toolRegistry (map fst tools);
               pastTools' = array_splice 0 (length pastTools) (mergedTools pastTools relevantTools) pastTools
           in (pastTools', agent pastTools' userID prompt)))"

text \<open>
  The loop of main.ts. Nothing catches an error of \<open>handlePrompt\<close> here: the promise of
  \<open>main()\<close> is rejected and unhandled.
\<close>

fun main_loop_main_ts ::
  "agent \<Rightarrow> runtime \<Rightarrow> ToolRegistry \<Rightarrow> ToolDefinition list \<Rightarrow> string list \<Rightarrow> status \<times> turns" where
  "main_loop_main_ts agent rt toolRegistry pastTools [] = (AwaitingInput, [])"
| "main_loop_main_ts agent rt toolRegistry pastTools (text # lines) =
     (if toLowerCase (trim text) = ''exit'' then (Exited 0, [])
      else
        (case handlePrompt_main_ts agent rt toolRegistry ''user1'' text pastTools of
           (pastTools', Inl e) \<Rightarrow> (UnhandledRejection e, [(text, pastTools')])
         | (pastTools', Inr reply) \<Rightarrow>
             (case main_loop_main_ts agent rt toolRegistry pastTools' lines of
                (st, ts) \<Rightarrow> (st, (text, pastTools') # ts))))"

section \<open>A small installation\<close>

text \<open>
  Concrete tools, a stand-in embedding model with two-dimensional unit vectors, the
  cosine distance of unit vectors, a table and a registry, on which the functions above
  are run below.
\<close>

definition stub_execute :: "string \<Rightarrow> error + string" where
  "stub_execute params = Inr ''{}''"

definition weather_tool :: ToolDefinition where
  "weather_tool =
     \<lparr>id' = ''get_weather'', name = ''Get Weather'', description = ''Retrieves weather'',
      keywords' = [''weather'', ''forecast''], parameters = ''{}'', execute = stub_execute\<rparr>"

definition email_tool :: ToolDefinition where
  "email_tool =
     \<lparr>id' = ''send_email'', name = ''Send Email'', description = ''Sends an email'',
      keywords' = [''email'', ''mail''], parameters = ''{}'', execute = stub_execute\<rparr>"

definition email_tool_v2 :: ToolDefinition where
  "email_tool_v2 =
     \<lparr>id' = ''send_email'', name = ''Send Email'', description = ''Sends an email with CC'',
      keywords' = [''email'', ''mail''], parameters = ''{}'', execute = stub_execute\<rparr>"

definition task_tool :: ToolDefinition where
  "task_tool =
     \<lparr>id' = ''create_task'', name = ''Create Task'', description = ''Creates a task'',
      keywords' = [''task'', ''todo''], parameters = ''{}'', execute = stub_execute\<rparr>"

definition example_vector :: "string \<Rightarrow> vec" where
  "example_vector text =
     (case text of
        [] \<Rightarrow> [0, 1]
      | c # _ \<Rightarrow>
          if c \<in> set ''Gw'' then [1, 0]
          else if c \<in> set ''Se'' then [0, 1]
          else [3 / 5, 4 / 5])"

definition example_model :: FlagEmbedding where
  "example_model texts = Inr (IteratorResult False (Some (map example_vector texts)))"

definition empty_batch_model :: FlagEmbedding where
  "empty_batch_model texts = Inr (IteratorResult False (Some []))"

definition example_distance :: "vec \<Rightarrow> vec \<Rightarrow> real" where
  "example_distance a b = 1 - sum_list (map (\<lambda>(x, y). x * y) (zip a b))"

definition example_table :: "tool_embeddings_row list" where
  "example_table =
     [\<lparr>tool_id = ''get_weather'', tool_name = ''Get Weather'',
       col_description = ''Retrieves weather'', col_keywords = [''weather'', ''forecast''],
       col_parameters = ''{}'',
       tool_definition = (''get_weather'', ''Get Weather'', ''Retrieves weather'', [''weather'', ''forecast'']),
       embedding = [1, 0]\<rparr>,
      \<lparr>tool_id = ''send_email'', tool_name = ''Send Email'',
       col_description = ''Sends an email'', col_keywords = [''email'', ''mail''],
       col_parameters = ''{}'',
       tool_definition = (''send_email'', ''Send Email'', ''Sends an email'', [''email'', ''mail'']),
       embedding = [0, 1]\<rparr>,
      \<lparr>tool_id = ''create_task'', tool_name = ''Create Task'',
       col_description = ''Creates a task'', col_keywords = [''task'', ''todo''],
       col_parameters = ''{}'',
       tool_definition = (''create_task'', ''Create Task'', ''Creates a task'', [''task'', ''todo'']),
       embedding = [3 / 5, 4 / 5]\<rparr>]"

definition example_runtime :: runtime where
  "example_runtime =
     \<lparr>FlagEmbedding_init = Inr example_model, embeddingModel = Some example_model,
      distance = example_distance, pool = Some example_table\<rparr>"

definition broken_runtime :: runtime where
  "broken_runtime =
     \<lparr>FlagEmbedding_init = Inr empty_batch_model, embeddingModel = Some empty_batch_model,
      distance = example_distance, pool = Some example_table\<rparr>"

definition example_registry :: ToolRegistry where
  "example_registry =
     [(''get_weather'', weather_tool), (''send_email'', email_tool), (''create_task'', task_tool)]"

definition example_agent :: agent where
  "example_agent tools userID prompt = Inr ''done''"

definition example_config :: search_config where
  "example_config = \<lparr>defaultTopK = 3, defaultSimilarityThreshold = 3 / 5\<rparr>"

definition example_finder :: "string \<Rightarrow> int \<Rightarrow> real \<Rightarrow> error + (string \<times> real) list" where
  "example_finder prompt topK threshold =
     findRelevantTools example_runtime prompt (Some topK) (Some threshold)"

section \<open>Facts about the Map\<close>

lemma Map_set_keys:
  "map fst (Map_set k v m) = (if k \<in> set (map fst m) then map fst m else map fst m @ [k])"
  by (induction m) (force split: if_splits)+

lemma Map_set_map_of: "map_of (Map_set k v m) = (map_of m)(k \<mapsto> v)"
  by (induction m) (auto simp: fun_eq_iff)

lemma Map_set_entries: "set (Map_set k v m) \<subseteq> insert (k, v) (set m)"
  by (induction m) (auto split: if_splits)

lemma remdups_drop_seen: "k \<in> set b \<Longrightarrow> remdups (a @ k # b) = remdups (a @ b)"
  by (induction a) auto

lemma keep_first_snoc:
  "rev (remdups (rev (ks @ k # r))) =
     rev (remdups (rev ((if k \<in> set ks then ks else ks @ [k]) @ r)))"
  by (simp add: remdups_drop_seen)

lemma foldl_Map_set_keys:
  "distinct (map fst m) \<Longrightarrow>
   map fst (foldl (\<lambda>m (k, v). Map_set k v m) m es) = rev (remdups (rev (map fst m @ map fst es)))"
proof (induction es arbitrary: m)
  case Nil
  then show ?case by (simp add: distinct_remdups_id)
next
  case (Cons e es)
  obtain k v where e: "e = (k, v)" by (cases e)
  have d: "distinct (map fst (Map_set k v m))"
    using Cons.prems by (simp add: Map_set_keys)
  show ?case
    using Cons.IH [OF d] keep_first_snoc [of "map fst m" k "map fst es"]
    by (simp add: e Map_set_keys)
qed

lemma foldl_Map_set_map_of:
  "map_of (foldl (\<lambda>m (k, v). Map_set k v m) m es) = map_of (rev es @ m)"
proof (induction es arbitrary: m)
  case Nil
  then show ?case by simp
next
  case (Cons e es)
  obtain k v where e: "e = (k, v)" by (cases e)
  show ?case
    by (simp add: e Cons.IH Map_set_map_of fun_eq_iff map_add_def split: option.splits)
qed

lemma foldl_Map_set_entries:
  "set (foldl (\<lambda>m (k, v). Map_set k v m) m es) \<subseteq> set m \<union> set es"
proof (induction es arbitrary: m)
  case Nil
  then show ?case by simp
next
  case (Cons e es)
  obtain k v where e: "e = (k, v)" by (cases e)
  show ?case
    using Cons.IH [of "Map_set k v m"] Map_set_entries [of k v m] by (auto simp: e)
qed

lemma map_of_tagged: "map_of (map (\<lambda>t. (f t, t)) xs) k = find (\<lambda>u. f u = k) xs"
  by (induction xs) auto

section \<open>The merge of a turn\<close>

lemma mergedTools_ids:
  "map id' (mergedTools p i) = rev (remdups (rev (map id' (p @ i))))"
proof -
  let ?es = "map (\<lambda>t. (id' t, t)) (p @ i)"
  have sub: "set (new_Map ?es) \<subseteq> set ?es"
    using foldl_Map_set_entries [of "[]" ?es] by (simp add: new_Map_def)
  have "map (id' \<circ> snd) (new_Map ?es) = map fst (new_Map ?es)"
    using sub by (intro map_cong) auto
  also have "\<dots> = rev (remdups (rev (map fst ?es)))"
    using foldl_Map_set_keys [of "[]" ?es] by (simp add: new_Map_def)
  finally show ?thesis by (simp add: mergedTools_def Map_values_def comp_def)
qed

lemma mergedTools_distinct: "distinct (map id' (mergedTools p i))"
  by (simp add: mergedTools_ids)

lemma mergedTools_length: "length (mergedTools p i) = card (id' ` set (p @ i))"
proof -
  have "length (mergedTools p i) = length (map id' (mergedTools p i))" by simp
  also have "\<dots> = card (set (map id' (p @ i)))"
    by (simp only: mergedTools_ids length_rev length_remdups_card_conv set_rev)
  finally show ?thesis by (simp add: image_Un)
qed

lemma mergedTools_latest:
  assumes "t \<in> set (mergedTools p i)"
  shows "find (\<lambda>u. id' u = id' t) (rev (p @ i)) = Some t"
proof -
  let ?es = "map (\<lambda>t. (id' t, t)) (p @ i)"
  from assms obtain k where kt: "(k, t) \<in> set (new_Map ?es)"
    by (auto simp: mergedTools_def Map_values_def)
  have sub: "set (new_Map ?es) \<subseteq> set ?es"
    using foldl_Map_set_entries [of "[]" ?es] by (simp add: new_Map_def)
  with kt have k: "k = id' t" by auto
  have "distinct (map fst (new_Map ?es))"
    using foldl_Map_set_keys [of "[]" ?es] by (simp add: new_Map_def)
  with kt k have "map_of (new_Map ?es) (id' t) = Some t" by simp
  moreover have "map_of (new_Map ?es) = map_of (rev ?es)"
    using foldl_Map_set_map_of [of "[]" ?es] by (simp add: new_Map_def)
  ultimately have "map_of (map (\<lambda>t. (id' t, t)) (rev (p @ i))) (id' t) = Some t"
    by (simp add: rev_map)
  then show ?thesis by (simp only: map_of_tagged)
qed

lemma mergedTools_two_two:
  "id' B' = id' B \<Longrightarrow> id' A \<noteq> id' B \<Longrightarrow> id' C \<noteq> id' A \<Longrightarrow> id' C \<noteq> id' B \<Longrightarrow>
   mergedTools [A, B] [B', C] = [A, B', C]"
  by (auto simp: mergedTools_def Map_values_def new_Map_def)

lemma mergedTools_grows:
  assumes "distinct (map id' p)"
  shows "length p \<le> length (mergedTools p i)"
proof -
  have "length p = card (id' ` set p)"
    using assms distinct_card [of "map id' p"] by simp
  also have "\<dots> \<le> card (id' ` set (p @ i))"
    by (rule card_mono) auto
  finally show ?thesis by (simp only: mergedTools_length)
qed

lemma mergedTools_keeps_ids: "id' ` set p \<subseteq> id' ` set (mergedTools p i)"
proof -
  have "set (map id' (mergedTools p i)) = set (map id' (p @ i))"
    by (simp only: mergedTools_ids set_rev set_remdups)
  then show ?thesis by auto
qed

text \<open>
  C1. The merge walks \<open>previous\<close> and then \<open>incoming\<close>: the ids of the result are the ids
  of the concatenation with every later repetition dropped (each id stands where it first
  appeared), and the value kept for an id is its last occurrence in the concatenation.
  The result has no two entries of one id, and as many entries as there are different ids
  in both inputs. For \<open>[A, B]\<close> and \<open>[B', C]\<close>, with \<open>B'\<close> of the id of \<open>B\<close>, the result is
  \<open>[A, B', C]\<close>.
\<close>

theorem mergedTools_first_position_last_value:
  "map id' (mergedTools previous incoming) = rev (remdups (rev (map id' (previous @ incoming))))
   \<and> (\<forall>t \<in> set (mergedTools previous incoming).
         find (\<lambda>u. id' u = id' t) (rev (previous @ incoming)) = Some t)
   \<and> distinct (map id' (mergedTools previous incoming))
   \<and> length (mergedTools previous incoming) = card (id' ` set (previous @ incoming))
   \<and> (id' B' = id' B \<and> id' A \<noteq> id' B \<and> id' C \<noteq> id' A \<and> id' C \<noteq> id' B \<longrightarrow>
         mergedTools [A, B] [B', C] = [A, B', C])"
proof (intro conjI ballI impI)
  show "map id' (mergedTools previous incoming) = rev (remdups (rev (map id' (previous @ incoming))))"
    by (rule mergedTools_ids)
  show "find (\<lambda>u. id' u = id' t) (rev (previous @ incoming)) = Some t"
    if "t \<in> set (mergedTools previous incoming)" for t
    using that by (rule mergedTools_latest)
  show "distinct (map id' (mergedTools previous incoming))"
    by (rule mergedTools_distinct)
  show "length (mergedTools previous incoming) = card (id' ` set (previous @ incoming))"
    by (rule mergedTools_length)
  show "mergedTools [A, B] [B', C] = [A, B', C]"
    if "id' B' = id' B \<and> id' A \<noteq> id' B \<and> id' C \<noteq> id' A \<and> id' C \<noteq> id' B"
    using that by (simp add: mergedTools_two_two)
qed

theorem mergedTools_first_position_last_value_witness:
  "mergedTools [weather_tool, email_tool] [email_tool_v2, task_tool] =
     [weather_tool, email_tool_v2, task_tool]
   \<and> id' email_tool_v2 = id' email_tool \<and> email_tool_v2 \<noteq> email_tool
   \<and> email_tool_v2 \<in> set (mergedTools [weather_tool, email_tool] [email_tool_v2, task_tool])
   \<and> find (\<lambda>u. id' u = id' email_tool_v2)
        (rev ([weather_tool, email_tool] @ [email_tool_v2, task_tool])) = Some email_tool_v2
   \<and> length (mergedTools [weather_tool, email_tool] [email_tool_v2, task_tool]) = 3"
proof -
  have ids: "id' email_tool_v2 = id' email_tool \<and> id' weather_tool \<noteq> id' email_tool
      \<and> id' task_tool \<noteq> id' weather_tool \<and> id' task_tool \<noteq> id' email_tool"
    by (simp add: weather_tool_def email_tool_def email_tool_v2_def task_tool_def)
  have differ: "email_tool_v2 \<noteq> email_tool"
    by (simp add: email_tool_def email_tool_v2_def)
  note C = mergedTools_first_position_last_value
    [of "[weather_tool, email_tool]" "[email_tool_v2, task_tool]"
        email_tool_v2 email_tool weather_tool task_tool]
  from C ids have m: "mergedTools [weather_tool, email_tool] [email_tool_v2, task_tool] =
      [weather_tool, email_tool_v2, task_tool]"
    by blast
  then have mem: "email_tool_v2 \<in> set (mergedTools [weather_tool, email_tool] [email_tool_v2, task_tool])"
    by simp
  with C have "find (\<lambda>u. id' u = id' email_tool_v2)
      (rev ([weather_tool, email_tool] @ [email_tool_v2, task_tool])) = Some email_tool_v2"
    by blast
  with m mem ids differ show ?thesis by simp
qed

section \<open>The registry\<close>

lemma registry_entries_keyed:
  "\<forall>(k, t) \<in> set m. k = id' t \<Longrightarrow> \<forall>(k, t) \<in> set (foldl register m ts). k = id' t"
proof (induction ts arbitrary: m)
  case Nil
  then show ?case by simp
next
  case (Cons a ts)
  have "\<forall>(k, t) \<in> set (register m a). k = id' t"
    using Cons.prems Map_set_entries [of "id' a" a m] by (auto simp: register_def)
  then show ?case using Cons.IH by simp
qed

lemma get_registered_id: "get (foldl register [] ts) i = Some t \<Longrightarrow> id' t = i"
  using registry_entries_keyed [of "[]" ts]
  by (auto simp: get_def Map_get_def dest!: map_of_SomeD)

lemma get_register: "get (register m t) i = (if i = id' t then Some t else get m i)"
  by (simp add: get_def Map_get_def register_def Map_set_map_of)

lemma get_registered_dom:
  "(get (foldl register m ts) i \<noteq> None) = (i \<in> id' ` set ts \<or> get m i \<noteq> None)"
  by (induction ts arbitrary: m) (auto simp: get_register)

lemma getMultiple_Nil: "getMultiple m [] = []"
  by (simp add: getMultiple_def)

lemma getMultiple_Cons:
  "getMultiple m (i # ids) =
     (case get m i of None \<Rightarrow> getMultiple m ids | Some t \<Rightarrow> t # getMultiple m ids)"
  by (simp add: getMultiple_def split: option.splits)

lemma getMultiple_concat:
  "getMultiple m ids = concat (map (\<lambda>i. case get m i of None \<Rightarrow> [] | Some t \<Rightarrow> [t]) ids)"
  by (induction ids) (simp_all add: getMultiple_Nil getMultiple_Cons split: option.splits)

lemma getMultiple_ids:
  "map id' (getMultiple (foldl register [] ts) ids) = filter (\<lambda>i. i \<in> id' ` set ts) ids"
proof (induction ids)
  case Nil
  then show ?case by (simp add: getMultiple_Nil)
next
  case (Cons i ids)
  show ?case
  proof (cases "get (foldl register [] ts) i")
    case None
    then have "i \<notin> id' ` set ts"
      using get_registered_dom [of "[]" ts i] by simp
    with None Cons show ?thesis by (simp add: getMultiple_Cons)
  next
    case (Some t)
    then have "i \<in> id' ` set ts"
      using get_registered_dom [of "[]" ts i] by (simp add: get_def Map_get_def)
    with Some Cons get_registered_id [OF Some] show ?thesis by (simp add: getMultiple_Cons)
  qed
qed

lemma getMultiple_count:
  "get (foldl register [] ts) i = Some t \<Longrightarrow>
   count_list (getMultiple (foldl register [] ts) ids) t = count_list ids i"
  by (induction ids)
    (auto simp: getMultiple_Nil getMultiple_Cons split: option.splits dest: get_registered_id)

lemma getMultiple_three:
  "id' A \<noteq> id' B \<Longrightarrow> missing \<noteq> id' A \<Longrightarrow> missing \<noteq> id' B \<Longrightarrow>
   getMultiple (register (register [] A) B) [id' A, missing, id' B] = [A, B]"
  by (simp add: getMultiple_def get_register) (simp add: get_def Map_get_def)

text \<open>
  C5. \<open>getMultiple\<close> looks every id up in the order given and leaves out the ids the
  registry has no entry for; it has no error result. On a registry filled by \<open>register\<close>
  the ids of the result are the input ids that are registered, in the order of the input.
  With only \<open>a\<close> and \<open>b\<close> registered, \<open>[a, missing, b]\<close> gives the tools of \<open>a\<close> and \<open>b\<close>.
\<close>

theorem getMultiple_order_and_omission:
  "getMultiple tools toolIds =
     concat (map (\<lambda>i. case get tools i of None \<Rightarrow> [] | Some t \<Rightarrow> [t]) toolIds)
   \<and> map id' (getMultiple (foldl register [] registered) toolIds) =
       filter (\<lambda>i. i \<in> id' ` set registered) toolIds
   \<and> (id' A \<noteq> id' B \<and> missing \<noteq> id' A \<and> missing \<noteq> id' B \<longrightarrow>
        getMultiple (register (register [] A) B) [id' A, missing, id' B] = [A, B])"
  using getMultiple_concat [of tools toolIds] getMultiple_ids [of registered toolIds]
    getMultiple_three [of A B missing]
  by blast

theorem getMultiple_order_and_omission_witness:
  "id' weather_tool \<noteq> id' task_tool \<and> ''missing'' \<noteq> id' weather_tool \<and> ''missing'' \<noteq> id' task_tool
   \<and> getMultiple (register (register [] weather_tool) task_tool)
        [id' weather_tool, ''missing'', id' task_tool] = [weather_tool, task_tool]
   \<and> map id' (getMultiple (foldl register [] [weather_tool, task_tool])
        [''create_task'', ''missing'', ''get_weather'']) = [''create_task'', ''get_weather'']"
proof -
  have ids: "id' weather_tool \<noteq> id' task_tool \<and> ''missing'' \<noteq> id' weather_tool
      \<and> ''missing'' \<noteq> id' task_tool"
    by (simp add: weather_tool_def task_tool_def)
  note C = getMultiple_order_and_omission
    [of _ "[''create_task'', ''missing'', ''get_weather'']" "[weather_tool, task_tool]"
        weather_tool task_tool "''missing''"]
  from C ids have three: "getMultiple (register (register [] weather_tool) task_tool)
      [id' weather_tool, ''missing'', id' task_tool] = [weather_tool, task_tool]"
    by blast
  from C have "map id' (getMultiple (foldl register [] [weather_tool, task_tool])
      [''create_task'', ''missing'', ''get_weather'']) =
      filter (\<lambda>i. i \<in> id' ` set [weather_tool, task_tool])
        [''create_task'', ''missing'', ''get_weather'']"
    by blast
  then have "map id' (getMultiple (foldl register [] [weather_tool, task_tool])
      [''create_task'', ''missing'', ''get_weather'']) = [''create_task'', ''get_weather'']"
    by (simp add: weather_tool_def task_tool_def)
  with ids three show ?thesis by simp
qed

text \<open>
  C10. \<open>getMultiple\<close> does not remove duplicates: on a registry filled by \<open>register\<close>, a
  registered tool stands in the result as often as its id stands in the input, so an id
  asked for twice gives its tool twice. The merge of the turn then keeps one entry per id.
\<close>

theorem getMultiple_keeps_duplicates:
  "(get (foldl register [] registered) i = Some t \<longrightarrow>
      count_list (getMultiple (foldl register [] registered) toolIds) t = count_list toolIds i)
   \<and> getMultiple (register [] A) [id' A, id' A] = [A, A]
   \<and> distinct (map id' (mergedTools pastTools (getMultiple tools toolIds)))
   \<and> mergedTools [] (getMultiple (register [] A) [id' A, id' A]) = [A]"
proof (intro conjI impI)
  show "count_list (getMultiple (foldl register [] registered) toolIds) t = count_list toolIds i"
    if "get (foldl register [] registered) i = Some t"
    using that by (rule getMultiple_count)
  show twice: "getMultiple (register [] A) [id' A, id' A] = [A, A]"
    by (simp add: getMultiple_def get_register)
  show "distinct (map id' (mergedTools pastTools (getMultiple tools toolIds)))"
    by (rule mergedTools_distinct)
  show "mergedTools [] (getMultiple (register [] A) [id' A, id' A]) = [A]"
    by (simp add: twice mergedTools_def new_Map_def Map_values_def)
qed

theorem getMultiple_keeps_duplicates_witness:
  "get (foldl register [] [weather_tool, email_tool]) ''send_email'' = Some email_tool
   \<and> count_list (getMultiple (foldl register [] [weather_tool, email_tool])
        [''send_email'', ''get_weather'', ''send_email'']) email_tool = 2
   \<and> getMultiple (register [] email_tool) [id' email_tool, id' email_tool] = [email_tool, email_tool]
   \<and> mergedTools [] (getMultiple (register [] email_tool) [id' email_tool, id' email_tool]) =
       [email_tool]"
proof -
  have g: "get (foldl register [] [weather_tool, email_tool]) ''send_email'' = Some email_tool"
    by (simp add: get_register) (simp add: email_tool_def)
  note C = getMultiple_keeps_duplicates
    [of "[weather_tool, email_tool]" "''send_email''" email_tool
        "[''send_email'', ''get_weather'', ''send_email'']" email_tool]
  from C g have "count_list (getMultiple (foldl register [] [weather_tool, email_tool])
      [''send_email'', ''get_weather'', ''send_email'']) email_tool =
      count_list [''send_email'', ''get_weather'', ''send_email''] ''send_email''"
    by blast
  then have "count_list (getMultiple (foldl register [] [weather_tool, email_tool])
      [''send_email'', ''get_weather'', ''send_email'']) email_tool = 2"
    by simp
  with C g show ?thesis by blast
qed

section \<open>The similarity query\<close>

lemma generateEmbedding_alt:
  "generateEmbedding rt text =
     (case (case embeddingModel rt of Some m \<Rightarrow> Inr m | None \<Rightarrow> FlagEmbedding_init rt) of
        Inl e \<Rightarrow> Inl e
      | Inr m \<Rightarrow>
          (case m [text] of
             Inl e \<Rightarrow> Inl e
           | Inr result \<Rightarrow>
               (if is_done result \<or> batch result = None
                then Inl (Error ''Failed to generate embedding'')
                else (case the (batch result) of
                        [] \<Rightarrow> Inl (Error ''Empty batch returned from embedding model'')
                      | v # _ \<Rightarrow> Inr v))))"
proof (cases "embeddingModel rt")
  case None
  then show ?thesis
    by (cases "FlagEmbedding_init rt")
      (simp_all add: generateEmbedding_def initializeEmbeddingModel_def)
next
  case (Some m)
  then show ?thesis
    by (simp add: generateEmbedding_def initializeEmbeddingModel_def)
qed

lemma generateEmbedding_pool:
  "generateEmbedding (rt\<lparr>pool := p\<rparr>) text = generateEmbedding rt text"
  by (cases "embeddingModel rt") (simp_all add: generateEmbedding_alt)

lemma findRelevantTools_Inr:
  assumes "generateEmbedding rt prompt = Inr q" "pool rt = Some table" "0 \<le> k"
  shows "findRelevantTools rt prompt (Some k) (Some t) =
     Inr (map (\<lambda>r. (tool_id r, similarity rt q r))
           (take (nat k) (sort_key (\<lambda>r. distance rt (embedding r) q)
              (filter (\<lambda>r. t < similarity rt q r) table))))"
  using assms by (simp add: findRelevantTools_def select_similar_def comp_def)

lemma ranked_set:
  "set (take n (sort_key d (filter P table))) \<subseteq> {r \<in> set table. P r}"
  using set_take_subset [of n "sort_key d (filter P table)"] by auto

lemma ranked_descending:
  fixes d :: "'a \<Rightarrow> real"
  shows "sorted_wrt (\<ge>) (map (\<lambda>r. 1 - d r) (take n (sort_key d xs)))"
proof -
  have "sorted (map d (sort_key d xs))" by (rule sorted_sort_key)
  then have "sorted (take n (map d (sort_key d xs)))" by (rule sorted_wrt_take)
  then have "sorted_wrt (\<lambda>x y. d x \<le> d y) (take n (sort_key d xs))"
    by (simp add: take_map sorted_wrt_map)
  then have "sorted_wrt (\<lambda>x y. 1 - d x \<ge> 1 - d y) (take n (sort_key d xs))"
    by (rule sorted_wrt_mono_rel [rotated]) simp
  then show ?thesis by (simp add: sorted_wrt_map)
qed

lemma ranked_top:
  fixes d :: "'a \<Rightarrow> real"
  assumes "r \<in> set xs" "r \<notin> set (take n (sort_key d xs))" "x \<in> set (take n (sort_key d xs))"
  shows "d x \<le> d r"
proof -
  let ?ys = "sort_key d xs"
  have "r \<in> set (take n ?ys @ drop n ?ys)" using assms(1) by simp
  with assms(2) have r: "r \<in> set (drop n ?ys)" by (simp only: set_append Un_iff) simp
  have "sorted (map d (take n ?ys @ drop n ?ys))" by (simp add: sorted_sort_key)
  then have "\<forall>a \<in> set (take n ?ys). \<forall>b \<in> set (drop n ?ys). d a \<le> d b"
    by (simp only: map_append sorted_append) auto
  with r assms(3) show ?thesis by blast
qed

lemma example_embedding_weather:
  "generateEmbedding example_runtime ''weather in Boston'' = Inr [1, 0]"
  by (simp add: generateEmbedding_def initializeEmbeddingModel_def example_runtime_def
      example_model_def example_vector_def)

lemma example_pool: "pool example_runtime = Some example_table"
  by (simp add: example_runtime_def)

lemma example_distance: "distance example_runtime = example_distance"
  by (simp add: example_runtime_def)

text \<open>
  C2. When the prompt's embedding is \<open>q\<close> and the pool holds \<open>table\<close>, the query returns,
  and every entry it returns is the id and the similarity of a stored row whose similarity
  is strictly greater than the threshold. A row whose similarity equals the threshold is
  not returned: no returned entry carries its similarity, and under the table's
  \<open>UNIQUE\<close> ids its id is not among the returned ids.
\<close>

theorem findRelevantTools_threshold_strict:
  assumes "generateEmbedding rt prompt = Inr q" and "pool rt = Some table" and "0 \<le> topK"
  shows "\<exists>res. findRelevantTools rt prompt (Some topK) (Some threshold) = Inr res
     \<and> (\<forall>(i, s) \<in> set res.
           threshold < s \<and> (\<exists>r \<in> set table. tool_id r = i \<and> similarity rt q r = s))
     \<and> (\<forall>r \<in> set table. similarity rt q r = threshold \<longrightarrow>
           (tool_id r, similarity rt q r) \<notin> set res)
     \<and> (distinct (map tool_id table) \<longrightarrow>
           (\<forall>r \<in> set table. similarity rt q r = threshold \<longrightarrow> tool_id r \<notin> fst ` set res))"
proof -
  let ?P = "\<lambda>r. threshold < similarity rt q r"
  let ?top = "take (nat topK) (sort_key (\<lambda>r. distance rt (embedding r) q) (filter ?P table))"
  let ?res = "map (\<lambda>r. (tool_id r, similarity rt q r)) ?top"
  have eq: "findRelevantTools rt prompt (Some topK) (Some threshold) = Inr ?res"
    using assms by (rule findRelevantTools_Inr)
  have sub: "set ?top \<subseteq> {r \<in> set table. ?P r}"
    by (rule ranked_set)
  have above: "\<forall>(i, s) \<in> set ?res.
      threshold < s \<and> (\<exists>r \<in> set table. tool_id r = i \<and> similarity rt q r = s)"
    using sub by auto
  have excluded: "\<forall>r \<in> set table. similarity rt q r = threshold \<longrightarrow>
      (tool_id r, similarity rt q r) \<notin> set ?res"
    using above by fastforce
  have unique: "tool_id r \<notin> fst ` set ?res"
    if d: "distinct (map tool_id table)" and r: "r \<in> set table"
      and at: "similarity rt q r = threshold" for r
  proof
    assume "tool_id r \<in> fst ` set ?res"
    then obtain r' where r': "r' \<in> set ?top" "tool_id r' = tool_id r" by auto
    with sub have "r' \<in> set table" "?P r'" by auto
    with d r r'(2) have "r' = r" by (auto simp: distinct_map inj_on_def)
    with \<open>?P r'\<close> at show False by simp
  qed
  from eq above excluded unique show ?thesis by blast
qed

theorem findRelevantTools_threshold_strict_witness:
  "generateEmbedding example_runtime ''weather in Boston'' = Inr [1, 0]
   \<and> pool example_runtime = Some example_table
   \<and> findRelevantTools example_runtime ''weather in Boston'' (Some 3) (Some (3 / 5)) =
       Inr [(''get_weather'', 1)]
   \<and> example_table ! 2 \<in> set example_table
   \<and> tool_id (example_table ! 2) = ''create_task''
   \<and> similarity example_runtime [1, 0] (example_table ! 2) = 3 / 5
   \<and> (''create_task'', 3 / 5) \<notin> set [(''get_weather'', 1 :: real)]
   \<and> (3 / 5 :: real) < 1"
proof -
  have run: "findRelevantTools example_runtime ''weather in Boston'' (Some 3) (Some (3 / 5)) =
      Inr [(''get_weather'', 1)]"
    by (simp add: findRelevantTools_def select_similar_def similarity_def
        example_embedding_weather example_pool example_distance example_table_def
        example_distance_def)
  have row: "example_table ! 2 \<in> set example_table \<and> tool_id (example_table ! 2) = ''create_task''
      \<and> similarity example_runtime [1, 0] (example_table ! 2) = 3 / 5"
    by (simp add: similarity_def example_distance example_table_def example_distance_def)
  from findRelevantTools_threshold_strict
    [OF example_embedding_weather example_pool, of 3 "3 / 5"]
  obtain res where res:
    "findRelevantTools example_runtime ''weather in Boston'' (Some 3) (Some (3 / 5)) = Inr res"
    "\<forall>(i, s) \<in> set res. 3 / 5 < s
       \<and> (\<exists>r \<in> set example_table. tool_id r = i \<and> similarity example_runtime [1, 0] r = s)"
    "\<forall>r \<in> set example_table. similarity example_runtime [1, 0] r = 3 / 5 \<longrightarrow>
       (tool_id r, similarity example_runtime [1, 0] r) \<notin> set res"
    by auto
  from res(1) run have r: "res = [(''get_weather'', 1)]" by simp
  from res(3) row have "(''create_task'', 3 / 5) \<notin> set res" by metis
  with r have out: "(''create_task'', 3 / 5) \<notin> set [(''get_weather'', 1 :: real)]" by simp
  from res(2) r have "(3 / 5 :: real) < 1" by simp
  with run row out example_embedding_weather example_pool show ?thesis by simp
qed

text \<open>
  C3. For a positive \<open>topK\<close> the query returns at most \<open>topK\<close> entries: as many as rows pass
  the threshold, capped at \<open>topK\<close>, so exactly \<open>topK\<close> when more rows pass. The entries are
  rows that pass the threshold, in descending order of similarity, and every passing row
  whose id is not returned has a similarity no greater than that of any returned entry.
\<close>

theorem findRelevantTools_topK_ranked:
  assumes "generateEmbedding rt prompt = Inr q" and "pool rt = Some table" and "0 < topK"
  shows "\<exists>res. findRelevantTools rt prompt (Some topK) (Some threshold) = Inr res
     \<and> length res \<le> nat topK
     \<and> length res = min (nat topK) (length (filter (\<lambda>r. threshold < similarity rt q r) table))
     \<and> (nat topK < length (filter (\<lambda>r. threshold < similarity rt q r) table) \<longrightarrow>
           length res = nat topK)
     \<and> sorted_wrt (\<ge>) (map snd res)
     \<and> (\<forall>(i, s) \<in> set res.
           \<exists>r \<in> set table. tool_id r = i \<and> similarity rt q r = s \<and> threshold < s)
     \<and> (\<forall>r \<in> set table. threshold < similarity rt q r \<and> tool_id r \<notin> fst ` set res \<longrightarrow>
           (\<forall>s \<in> snd ` set res. similarity rt q r \<le> s))"
proof -
  let ?P = "\<lambda>r. threshold < similarity rt q r"
  let ?d = "\<lambda>r. distance rt (embedding r) q"
  let ?top = "take (nat topK) (sort_key ?d (filter ?P table))"
  let ?res = "map (\<lambda>r. (tool_id r, similarity rt q r)) ?top"
  have eq: "findRelevantTools rt prompt (Some topK) (Some threshold) = Inr ?res"
    using assms by (intro findRelevantTools_Inr) simp_all
  have len: "length ?res = min (nat topK) (length (filter ?P table))"
    by (simp add: min.commute)
  have desc: "sorted_wrt (\<ge>) (map snd ?res)"
    using ranked_descending [of ?d "nat topK" "filter ?P table"]
    by (simp add: comp_def similarity_def)
  have sub: "set ?top \<subseteq> {r \<in> set table. ?P r}"
    by (rule ranked_set)
  have from_table: "\<forall>(i, s) \<in> set ?res.
      \<exists>r \<in> set table. tool_id r = i \<and> similarity rt q r = s \<and> threshold < s"
    using sub by auto
  have top: "similarity rt q r \<le> s"
    if r: "r \<in> set table" "?P r" "tool_id r \<notin> fst ` set ?res" and s: "s \<in> snd ` set ?res"
    for r s
  proof -
    from s obtain x where x: "x \<in> set ?top" "s = similarity rt q x" by auto
    from r(3) have out: "r \<notin> set ?top" by force
    from r(1,2) have "r \<in> set (filter ?P table)" by simp
    from this out x(1) have "?d x \<le> ?d r" by (rule ranked_top)
    with x(2) show ?thesis by (simp add: similarity_def)
  qed
  from eq len desc from_table top show ?thesis
    by (intro exI [of _ ?res] conjI) (simp_all only: min.cobounded1, auto)
qed

theorem findRelevantTools_topK_ranked_witness:
  "generateEmbedding example_runtime ''weather in Boston'' = Inr [1, 0]
   \<and> pool example_runtime = Some example_table \<and> (0 :: int) < 1
   \<and> findRelevantTools example_runtime ''weather in Boston'' (Some 1) (Some (1 / 2)) =
       Inr [(''get_weather'', 1)]
   \<and> nat 1 < length (filter (\<lambda>r. 1 / 2 < similarity example_runtime [1, 0] r) example_table)
   \<and> length [(''get_weather'', 1 :: real)] = nat 1
   \<and> example_table ! 2 \<in> set example_table
   \<and> 1 / 2 < similarity example_runtime [1, 0] (example_table ! 2)
   \<and> tool_id (example_table ! 2) \<notin> fst ` set [(''get_weather'', 1 :: real)]
   \<and> similarity example_runtime [1, 0] (example_table ! 2) \<le> 1"
proof -
  have pos: "(0 :: int) < 1" by simp
  have run: "findRelevantTools example_runtime ''weather in Boston'' (Some 1) (Some (1 / 2)) =
      Inr [(''get_weather'', 1)]"
    by (simp add: findRelevantTools_def select_similar_def similarity_def
        example_embedding_weather example_pool example_distance example_table_def
        example_distance_def)
  have many: "nat 1 < length (filter (\<lambda>r. 1 / 2 < similarity example_runtime [1, 0] r) example_table)"
    by (simp add: similarity_def example_distance example_table_def example_distance_def)
  have row: "example_table ! 2 \<in> set example_table
      \<and> 1 / 2 < similarity example_runtime [1, 0] (example_table ! 2)
      \<and> tool_id (example_table ! 2) \<notin> fst ` set [(''get_weather'', 1 :: real)]"
    by (simp add: similarity_def example_distance example_table_def example_distance_def)
  from findRelevantTools_topK_ranked
    [OF example_embedding_weather example_pool pos, of "1 / 2"]
  obtain res where res:
    "findRelevantTools example_runtime ''weather in Boston'' (Some 1) (Some (1 / 2)) = Inr res"
    "nat 1 < length (filter (\<lambda>r. 1 / 2 < similarity example_runtime [1, 0] r) example_table)
       \<longrightarrow> length res = nat 1"
    "\<forall>r \<in> set example_table. 1 / 2 < similarity example_runtime [1, 0] r
         \<and> tool_id r \<notin> fst ` set res \<longrightarrow>
       (\<forall>s \<in> snd ` set res. similarity example_runtime [1, 0] r \<le> s)"
    by auto
  from res(1) run have r: "res = [(''get_weather'', 1)]" by simp
  from res(2) many r have one: "length [(''get_weather'', 1 :: real)] = nat 1" by simp
  from res(3) row r have "\<forall>s \<in> snd ` set [(''get_weather'', 1 :: real)].
      similarity example_runtime [1, 0] (example_table ! 2) \<le> s"
    by metis
  then have below: "similarity example_runtime [1, 0] (example_table ! 2) \<le> 1" by simp
  from run many one row below pos example_embedding_weather example_pool show ?thesis
    by simp
qed

text \<open>
  C9. The copy of \<open>findRelevantTools\<close> in main.ts and the one in database.ts give the same
  result for every prompt, \<open>topK\<close> and threshold (given or left to their defaults), on the
  same embedding model and the same stored rows.
\<close>

theorem findRelevantTools_main_ts_equivalent:
  "findRelevantTools_main_ts rt userPrompt topK similarityThreshold =
     findRelevantTools rt userPrompt topK similarityThreshold"
  by (simp add: findRelevantTools_main_ts_def findRelevantTools_def)

section \<open>Registration in the store\<close>

lemma upsert_ids:
  "map tool_id (upsert new table) =
     (if tool_id new \<in> set (map tool_id table) then map tool_id table
      else map tool_id table @ [tool_id new])"
  by (induction table) (force split: if_splits)+

lemma upsert_distinct:
  "distinct (map tool_id table) \<Longrightarrow> distinct (map tool_id (upsert new table))"
  by (simp add: upsert_ids)

lemma upsert_present:
  "distinct (map tool_id table) \<Longrightarrow> new \<in> set table \<Longrightarrow> upsert new table = table"
  by (induction table) (auto simp: rev_image_eqI)

lemma upsert_one:
  "distinct (map tool_id table) \<Longrightarrow>
   filter (\<lambda>r. tool_id r = tool_id new) (upsert new table) = [new]"
proof (induction table)
  case Nil
  then show ?case by simp
next
  case (Cons r table)
  have "\<forall>x \<in> set table. tool_id x \<noteq> tool_id r"
    using Cons.prems by (auto simp: image_iff)
  then have "tool_id r = tool_id new \<Longrightarrow> filter (\<lambda>r. tool_id r = tool_id new) table = []"
    by (simp add: filter_empty_conv)
  with Cons show ?case by auto
qed

lemma registerToolInDatabase_Inr:
  assumes "pool rt = Some table" "registerToolInDatabase rt tool = Inr rt1"
  shows "\<exists>v. generateEmbedding rt (searchableText tool) = Inr v
     \<and> rt1 = rt\<lparr>pool := Some (upsert (row_of tool v) table)\<rparr>"
  using assms by (auto simp: registerToolInDatabase_def split: sum.splits)

lemma registerToolInDatabase_present:
  assumes "generateEmbedding rt (searchableText tool) = Inr v" "pool rt = Some table"
    "distinct (map tool_id table)" "row_of tool v \<in> set table"
  shows "registerToolInDatabase rt tool = Inr rt"
proof -
  have "upsert (row_of tool v) table = table"
    using assms(3,4) by (rule upsert_present)
  then have "registerToolInDatabase rt tool = Inr (rt\<lparr>pool := Some table\<rparr>)"
    using assms(1,2) by (simp add: registerToolInDatabase_def)
  moreover have "rt\<lparr>pool := Some table\<rparr> = rt"
    using assms(2) by simp
  ultimately show ?thesis by simp
qed

lemma registerToolInDatabase_unique:
  assumes "pool rt = Some table" "distinct (map tool_id table)"
  shows "case registerToolInDatabase rt tool of
           Inl e \<Rightarrow> True
         | Inr rt1 \<Rightarrow> \<exists>table1. pool rt1 = Some table1 \<and> distinct (map tool_id table1)"
  using assms
  by (auto simp: registerToolInDatabase_def upsert_distinct split: sum.splits)

lemma setupAllTools_unique:
  assumes "pool rt = Some table" "distinct (map tool_id table)"
    "setupAllTools (reg, rt) tools = ((reg', rt'), err)"
  shows "\<exists>table'. pool rt' = Some table' \<and> distinct (map tool_id table')"
  using assms
proof (induction tools arbitrary: reg rt table)
  case Nil
  then show ?case by simp
next
  case (Cons tool tools)
  show ?case
  proof (cases "registerToolInDatabase rt tool")
    case (Inl e)
    with Cons.prems show ?thesis by (auto simp: registerTool_def)
  next
    case (Inr rt1)
    with registerToolInDatabase_unique [OF Cons.prems(1,2), of tool]
    obtain table1 where t1: "pool rt1 = Some table1" "distinct (map tool_id table1)"
      by auto
    from Cons.prems(3) Inr
    have "setupAllTools (register reg tool, rt1) tools = ((reg', rt'), err)"
      by (simp add: registerTool_def)
    with t1 show ?thesis by (rule Cons.IH)
  qed
qed

lemma example_embedding_weather_tool:
  "generateEmbedding example_runtime (searchableText weather_tool) = Inr [1, 0]"
  by (simp add: generateEmbedding_def initializeEmbeddingModel_def example_runtime_def
      example_model_def example_vector_def searchableText_def weather_tool_def trim_def
      isWhiteSpace_def)

text \<open>
  C7. On a table with unique ids, a registration that returns leaves a table with unique
  ids and exactly one row for the tool's id, which holds the embedding of the tool's
  searchable text. Registering the same tool once more returns the same state, and so does
  registering it on any later table that still holds that row: nothing is duplicated and
  the vector stays. Any sequence of registrations keeps the ids unique, and a freshly
  created table is empty.
\<close>

theorem registerToolInDatabase_upsert_idempotent:
  "(pool rt = Some table \<and> distinct (map tool_id table)
      \<and> registerToolInDatabase rt tool = Inr rt1 \<longrightarrow>
      (\<exists>table1 v. pool rt1 = Some table1 \<and> distinct (map tool_id table1)
         \<and> generateEmbedding rt (searchableText tool) = Inr v
         \<and> filter (\<lambda>r. tool_id r = id' tool) table1 = [row_of tool v]
         \<and> embedding (row_of tool v) = v
         \<and> registerToolInDatabase rt1 tool = Inr rt1
         \<and> (\<forall>table2. distinct (map tool_id table2) \<and> row_of tool v \<in> set table2 \<longrightarrow>
               registerToolInDatabase (rt1\<lparr>pool := Some table2\<rparr>) tool =
                 Inr (rt1\<lparr>pool := Some table2\<rparr>))))
   \<and> (pool rt = Some table \<and> distinct (map tool_id table)
        \<and> setupAllTools (reg, rt) tools = ((reg', rt'), err) \<longrightarrow>
        (\<exists>table'. pool rt' = Some table' \<and> distinct (map tool_id table')))
   \<and> pool (initDatabase (rt\<lparr>pool := None\<rparr>) None) = Some []"
proof (intro conjI impI)
  assume a: "pool rt = Some table \<and> distinct (map tool_id table)
      \<and> registerToolInDatabase rt tool = Inr rt1"
  then obtain v where v: "generateEmbedding rt (searchableText tool) = Inr v"
    and rt1: "rt1 = rt\<lparr>pool := Some (upsert (row_of tool v) table)\<rparr>"
    using registerToolInDatabase_Inr [of rt table tool rt1] by blast
  let ?table1 = "upsert (row_of tool v) table"
  have p1: "pool rt1 = Some ?table1" by (simp add: rt1)
  have d1: "distinct (map tool_id ?table1)" using a by (simp add: upsert_distinct)
  have one: "filter (\<lambda>r. tool_id r = id' tool) ?table1 = [row_of tool v]"
    using a upsert_one [of table "row_of tool v"] by (simp add: row_of_def)
  have v1: "generateEmbedding (rt1\<lparr>pool := p\<rparr>) (searchableText tool) = Inr v" for p
    using v by (simp add: rt1 generateEmbedding_pool)
  have later: "registerToolInDatabase (rt1\<lparr>pool := Some table2\<rparr>) tool =
      Inr (rt1\<lparr>pool := Some table2\<rparr>)"
    if "distinct (map tool_id table2) \<and> row_of tool v \<in> set table2" for table2
    using v1 [of "Some table2"] that
    by (intro registerToolInDatabase_present [of _ _ v table2]) simp_all
  have "row_of tool v \<in> set (filter (\<lambda>r. tool_id r = id' tool) ?table1)"
    by (simp add: one)
  then have mem: "row_of tool v \<in> set ?table1" by simp
  have "registerToolInDatabase (rt1\<lparr>pool := Some ?table1\<rparr>) tool =
      Inr (rt1\<lparr>pool := Some ?table1\<rparr>)"
    using d1 mem by (intro later) simp
  moreover have "rt1\<lparr>pool := Some ?table1\<rparr> = rt1" by (simp add: rt1)
  ultimately have again: "registerToolInDatabase rt1 tool = Inr rt1" by simp
  from p1 d1 v one again later
  show "\<exists>table1 v. pool rt1 = Some table1 \<and> distinct (map tool_id table1)
         \<and> generateEmbedding rt (searchableText tool) = Inr v
         \<and> filter (\<lambda>r. tool_id r = id' tool) table1 = [row_of tool v]
         \<and> embedding (row_of tool v) = v
         \<and> registerToolInDatabase rt1 tool = Inr rt1
         \<and> (\<forall>table2. distinct (map tool_id table2) \<and> row_of tool v \<in> set table2 \<longrightarrow>
               registerToolInDatabase (rt1\<lparr>pool := Some table2\<rparr>) tool =
                 Inr (rt1\<lparr>pool := Some table2\<rparr>))"
    by (intro exI [of _ ?table1] exI [of _ v]) (simp add: row_of_def)
next
  assume "pool rt = Some table \<and> distinct (map tool_id table)
      \<and> setupAllTools (reg, rt) tools = ((reg', rt'), err)"
  then show "\<exists>table'. pool rt' = Some table' \<and> distinct (map tool_id table')"
    using setupAllTools_unique [of rt table reg tools reg' rt' err] by blast
next
  show "pool (initDatabase (rt\<lparr>pool := None\<rparr>) None) = Some []"
    by (simp add: initDatabase_def)
qed

theorem registerToolInDatabase_upsert_idempotent_witness:
  "pool (example_runtime\<lparr>pool := Some []\<rparr>) = Some []
   \<and> distinct (map tool_id ([] :: tool_embeddings_row list))
   \<and> registerToolInDatabase (example_runtime\<lparr>pool := Some []\<rparr>) weather_tool =
       Inr (example_runtime\<lparr>pool := Some [row_of weather_tool [1, 0]]\<rparr>)
   \<and> registerToolInDatabase (example_runtime\<lparr>pool := Some [row_of weather_tool [1, 0]]\<rparr>)
        weather_tool = Inr (example_runtime\<lparr>pool := Some [row_of weather_tool [1, 0]]\<rparr>)
   \<and> setupAllTools ([], example_runtime\<lparr>pool := Some []\<rparr>) [weather_tool, weather_tool] =
       (([(''get_weather'', weather_tool)],
         example_runtime\<lparr>pool := Some [row_of weather_tool [1, 0]]\<rparr>), None)
   \<and> distinct (map tool_id [row_of weather_tool [1, 0]])"
proof -
  let ?rt0 = "example_runtime\<lparr>pool := Some []\<rparr>"
  let ?rt1 = "example_runtime\<lparr>pool := Some [row_of weather_tool [1, 0]]\<rparr>"
  have e0: "generateEmbedding ?rt0 (searchableText weather_tool) = Inr [1, 0]"
    by (simp only: generateEmbedding_pool example_embedding_weather_tool)
  have first: "registerToolInDatabase ?rt0 weather_tool = Inr ?rt1"
    by (simp add: registerToolInDatabase_def e0)
  note C = registerToolInDatabase_upsert_idempotent
    [of ?rt0 "[]" weather_tool ?rt1 "[]" "[weather_tool, weather_tool]"
        "[(''get_weather'', weather_tool)]" ?rt1 None]
  have pre: "pool ?rt0 = Some [] \<and> distinct (map tool_id ([] :: tool_embeddings_row list))
      \<and> registerToolInDatabase ?rt0 weather_tool = Inr ?rt1"
    using first by simp
  from C pre have second: "registerToolInDatabase ?rt1 weather_tool = Inr ?rt1"
    by blast
  have twice: "setupAllTools ([], ?rt0) [weather_tool, weather_tool] =
      (([(''get_weather'', weather_tool)], ?rt1), None)"
    by (simp add: registerTool_def first second register_def) (simp add: weather_tool_def)
  have "pool ?rt0 = Some [] \<and> distinct (map tool_id ([] :: tool_embeddings_row list))
      \<and> setupAllTools ([], ?rt0) [weather_tool, weather_tool] =
          (([(''get_weather'', weather_tool)], ?rt1), None)"
    using twice by simp
  with C have "\<exists>table'. pool ?rt1 = Some table' \<and> distinct (map tool_id table')"
    by blast
  then have "distinct (map tool_id [row_of weather_tool [1, 0]])" by simp
  with first second twice show ?thesis by simp
qed

section \<open>A turn\<close>

lemma array_splice_all: "array_splice 0 (length xs) items xs = items"
  by (simp add: array_splice_def)

lemma handlePrompt_Inl:
  "finder prompt (defaultTopK config) (defaultSimilarityThreshold config) = Inl e \<Longrightarrow>
   handlePrompt config agent userID prompt pastTools finder getMul = (pastTools, Inl e)"
  by (simp add: handlePrompt_def)

lemma handlePrompt_Inr:
  "finder prompt (defaultTopK config) (defaultSimilarityThreshold config) = Inr tools \<Longrightarrow>
   handlePrompt config agent userID prompt pastTools finder getMul =
     (mergedTools pastTools (getMul (map fst tools)),
      agent (mergedTools pastTools (getMul (map fst tools))) userID prompt)"
  by (simp add: handlePrompt_def array_splice_all Let_def)

lemma handlePrompt_grows:
  assumes "distinct (map id' pastTools)"
  shows "length pastTools \<le> length (fst (handlePrompt config agent userID prompt pastTools finder getMul))
     \<and> distinct (map id' (fst (handlePrompt config agent userID prompt pastTools finder getMul)))"
proof (cases "finder prompt (defaultTopK config) (defaultSimilarityThreshold config)")
  case (Inl e)
  with assms show ?thesis by (simp add: handlePrompt_Inl)
next
  case (Inr tools)
  with assms show ?thesis
    by (simp add: handlePrompt_Inr mergedTools_grows mergedTools_distinct)
qed

lemma handlePrompt_keeps_ids:
  "id' ` set pastTools \<subseteq>
     id' ` set (fst (handlePrompt config agent userID prompt pastTools finder getMul))"
proof (cases "finder prompt (defaultTopK config) (defaultSimilarityThreshold config)")
  case (Inl e)
  then show ?thesis by (simp add: handlePrompt_Inl)
next
  case (Inr tools)
  then show ?thesis by (simp add: handlePrompt_Inr mergedTools_keeps_ids)
qed

section \<open>The prompt loop\<close>

lemma toLowerCase_Nil: "toLowerCase [] = []"
  by (simp add: toLowerCase_def)

lemma main_loop_exit:
  "toLowerCase (trim text) = ''exit'' \<Longrightarrow>
   main_loop config agent rt reg pastTools (text # lines) = (Exited 0, [])"
  by simp

lemma main_loop_blank:
  "trim text = [] \<Longrightarrow>
   main_loop config agent rt reg pastTools (text # lines) =
     main_loop config agent rt reg pastTools lines"
  by (simp add: toLowerCase_Nil)

lemma main_loop_failed:
  assumes "toLowerCase (trim text) \<noteq> ''exit''" "trim text \<noteq> []"
    "handlePrompt config agent ''user1'' text pastTools
       (\<lambda>prompt topK threshold. findRelevantTools rt prompt (Some topK) (Some threshold))
       (getMultiple reg) = (pastTools', Inl e)"
  shows "main_loop config agent rt reg pastTools (text # lines) = (Exited 1, [(text, pastTools')])"
  using assms by simp

lemma main_loop_turn:
  assumes "toLowerCase (trim text) \<noteq> ''exit''" "trim text \<noteq> []"
    "handlePrompt config agent ''user1'' text pastTools
       (\<lambda>prompt topK threshold. findRelevantTools rt prompt (Some topK) (Some threshold))
       (getMultiple reg) = (pastTools', Inr reply)"
  shows "main_loop config agent rt reg pastTools (text # lines) =
     (fst (main_loop config agent rt reg pastTools' lines),
      (text, pastTools') # snd (main_loop config agent rt reg pastTools' lines))"
  using assms by (simp add: case_prod_unfold)

lemma main_loop_lengths:
  "distinct (map id' pastTools) \<Longrightarrow>
   sorted (length pastTools # map (\<lambda>turn. length (snd turn))
     (snd (main_loop config agent rt reg pastTools lines)))"
proof (induction lines arbitrary: pastTools)
  case Nil
  then show ?case by simp
next
  case (Cons line lines)
  let ?h = "handlePrompt config agent ''user1'' line pastTools
       (\<lambda>prompt topK threshold. findRelevantTools rt prompt (Some topK) (Some threshold))
       (getMultiple reg)"
  consider (quit) "toLowerCase (trim line) = ''exit''"
    | (blank) "trim line = []"
    | (turn) "toLowerCase (trim line) \<noteq> ''exit''" "trim line \<noteq> []"
    by blast
  then show ?case
  proof cases
    case quit
    then show ?thesis by (simp only: main_loop_exit) simp
  next
    case blank
    then show ?thesis using Cons.IH [OF Cons.prems] by (simp only: main_loop_blank)
  next
    case turn
    obtain pastTools' r where h: "?h = (pastTools', r)" by (cases ?h)
    from handlePrompt_grows [OF Cons.prems, of config agent "''user1''" line _ "getMultiple reg"] h
    have g: "length pastTools \<le> length pastTools'" and d: "distinct (map id' pastTools')"
      by (metis fst_conv)+
    show ?thesis
    proof (cases r)
      case (Inl e)
      with h have "?h = (pastTools', Inl e)" by simp
      note eq = main_loop_failed [OF turn this]
      from g show ?thesis unfolding eq by simp
    next
      case (Inr reply)
      with h have "?h = (pastTools', Inr reply)" by simp
      note eq = main_loop_turn [OF turn this]
      from Cons.IH [OF d] g show ?thesis unfolding eq by fastforce
    qed
  qed
qed

lemma main_loop_handled:
  "fst (main_loop config agent rt reg pastTools lines) \<noteq> Exited 1 \<Longrightarrow>
   map fst (snd (main_loop config agent rt reg pastTools lines)) =
     filter (\<lambda>l. trim l \<noteq> []) (takeWhile (\<lambda>l. toLowerCase (trim l) \<noteq> ''exit'') lines)"
proof (induction lines arbitrary: pastTools)
  case Nil
  then show ?case by simp
next
  case (Cons line lines)
  let ?h = "handlePrompt config agent ''user1'' line pastTools
       (\<lambda>prompt topK threshold. findRelevantTools rt prompt (Some topK) (Some threshold))
       (getMultiple reg)"
  consider (quit) "toLowerCase (trim line) = ''exit''"
    | (blank) "toLowerCase (trim line) \<noteq> ''exit''" "trim line = []"
    | (turn) "toLowerCase (trim line) \<noteq> ''exit''" "trim line \<noteq> []"
    by blast
  then show ?case
  proof cases
    case quit
    then show ?thesis by (simp only: main_loop_exit) simp
  next
    case blank
    have eq: "main_loop config agent rt reg pastTools (line # lines) =
        main_loop config agent rt reg pastTools lines"
      using blank(2) by (rule main_loop_blank)
    from Cons.prems have "fst (main_loop config agent rt reg pastTools lines) \<noteq> Exited 1"
      unfolding eq .
    from Cons.IH [OF this] blank show ?thesis unfolding eq by simp
  next
    case turn
    obtain pastTools' r where h: "?h = (pastTools', r)" by (cases ?h)
    show ?thesis
    proof (cases r)
      case (Inl e)
      with h have "?h = (pastTools', Inl e)" by simp
      note eq = main_loop_failed [OF turn this]
      from Cons.prems show ?thesis unfolding eq by simp
    next
      case (Inr reply)
      with h have "?h = (pastTools', Inr reply)" by simp
      note eq = main_loop_turn [OF turn this]
      from Cons.prems have "fst (main_loop config agent rt reg pastTools' lines) \<noteq> Exited 1"
        unfolding eq by simp
      from Cons.IH [OF this] turn show ?thesis unfolding eq by simp
    qed
  qed
qed

section \<open>Runs of the small installation\<close>

lemma example_embedding_email:
  "generateEmbedding example_runtime ''email john'' = Inr [0, 1]"
  by (simp add: generateEmbedding_def initializeEmbeddingModel_def example_runtime_def
      example_model_def example_vector_def)

lemma example_embedding_blank:
  "generateEmbedding example_runtime ''   '' = Inr [3 / 5, 4 / 5]"
  by (simp add: generateEmbedding_def initializeEmbeddingModel_def example_runtime_def
      example_model_def example_vector_def)

lemma example_embedding_broken:
  "generateEmbedding broken_runtime text =
     Inl (Error ''Empty batch returned from embedding model'')"
  by (simp add: generateEmbedding_def initializeEmbeddingModel_def broken_runtime_def
      empty_batch_model_def)

lemma example_find_weather:
  "findRelevantTools example_runtime ''weather in Boston'' (Some 3) (Some (3 / 5)) =
     Inr [(''get_weather'', 1)]"
  by (simp add: findRelevantTools_def select_similar_def similarity_def
      example_embedding_weather example_pool example_distance example_table_def
      example_distance_def)

lemma example_find_email:
  "findRelevantTools example_runtime ''email john'' (Some 3) (Some (3 / 5)) =
     Inr [(''send_email'', 1), (''create_task'', 4 / 5)]"
  by (simp add: findRelevantTools_def select_similar_def similarity_def
      example_embedding_email example_pool example_distance example_table_def
      example_distance_def)

lemma example_find_broken:
  "findRelevantTools broken_runtime text topK threshold =
     Inl (Error ''Empty batch returned from embedding model'')"
  by (simp add: findRelevantTools_def example_embedding_broken)

lemma example_get_weather:
  "getMultiple example_registry [''get_weather''] = [weather_tool]"
  by (simp add: getMultiple_def get_def Map_get_def example_registry_def)

lemma example_get_email_task:
  "getMultiple example_registry [''send_email'', ''create_task''] = [email_tool, task_tool]"
  by (simp add: getMultiple_def get_def Map_get_def example_registry_def)

lemma example_get_task_email:
  "getMultiple example_registry [''create_task'', ''send_email''] = [task_tool, email_tool]"
  by (simp add: getMultiple_def get_def Map_get_def example_registry_def)

lemma example_merge_first: "mergedTools [] [weather_tool] = [weather_tool]"
  by (simp add: mergedTools_def new_Map_def Map_values_def)

lemma example_merge_second:
  "mergedTools [weather_tool] [email_tool, task_tool] = [weather_tool, email_tool, task_tool]"
  by (simp add: mergedTools_def new_Map_def Map_values_def weather_tool_def email_tool_def
      task_tool_def)

lemma example_merge_blank: "mergedTools [] [task_tool, email_tool] = [task_tool, email_tool]"
  by (simp add: mergedTools_def new_Map_def Map_values_def email_tool_def task_tool_def)

lemma example_line_weather:
  "toLowerCase (trim ''weather in Boston'') \<noteq> ''exit'' \<and> trim ''weather in Boston'' \<noteq> []"
  by code_simp

lemma example_line_email:
  "toLowerCase (trim ''email john'') \<noteq> ''exit'' \<and> trim ''email john'' \<noteq> []"
  by code_simp

lemma example_line_blank: "trim ''   '' = [] \<and> toLowerCase (trim ''   '') \<noteq> ''exit''"
  by code_simp

lemma example_config_fields:
  "defaultTopK example_config = 3 \<and> defaultSimilarityThreshold example_config = 3 / 5"
  by (simp add: example_config_def)

lemma example_turn_weather:
  "handlePrompt example_config example_agent ''user1'' ''weather in Boston'' []
     (\<lambda>prompt topK threshold. findRelevantTools example_runtime prompt (Some topK) (Some threshold))
     (getMultiple example_registry) = ([weather_tool], Inr ''done'')"
  by (simp add: handlePrompt_def example_config_fields example_find_weather array_splice_def
      example_get_weather example_merge_first example_agent_def)

lemma example_turn_email:
  "handlePrompt example_config example_agent ''user1'' ''email john'' [weather_tool]
     (\<lambda>prompt topK threshold. findRelevantTools example_runtime prompt (Some topK) (Some threshold))
     (getMultiple example_registry) = ([weather_tool, email_tool, task_tool], Inr ''done'')"
  by (simp add: handlePrompt_def example_config_fields example_find_email array_splice_def
      example_get_email_task example_merge_second example_agent_def)

lemma example_turn_broken:
  "handlePrompt example_config example_agent ''user1'' text pastTools
     (\<lambda>prompt topK threshold. findRelevantTools broken_runtime prompt (Some topK) (Some threshold))
     (getMultiple example_registry) =
     (pastTools, Inl (Error ''Empty batch returned from embedding model''))"
  by (simp add: handlePrompt_def example_find_broken)

lemma example_run:
  "main_loop example_config example_agent example_runtime example_registry []
     [''weather in Boston'', ''email john''] =
     (AwaitingInput, [(''weather in Boston'', [weather_tool]),
                      (''email john'', [weather_tool, email_tool, task_tool])])"
proof -
  have w: "toLowerCase (trim ''weather in Boston'') \<noteq> ''exit''" "trim ''weather in Boston'' \<noteq> []"
    using example_line_weather by blast+
  have e: "toLowerCase (trim ''email john'') \<noteq> ''exit''" "trim ''email john'' \<noteq> []"
    using example_line_email by blast+
  show ?thesis
    unfolding main_loop_turn [OF w example_turn_weather] main_loop_turn [OF e example_turn_email]
    by simp
qed

lemma example_run_broken:
  "main_loop example_config example_agent broken_runtime example_registry pastTools
     (''weather in Boston'' # lines) = (Exited 1, [(''weather in Boston'', pastTools)])"
proof -
  have w: "toLowerCase (trim ''weather in Boston'') \<noteq> ''exit''" "trim ''weather in Boston'' \<noteq> []"
    using example_line_weather by blast+
  show ?thesis by (rule main_loop_failed [OF w example_turn_broken])
qed

lemma example_turn_blank_main_ts:
  "handlePrompt_main_ts example_agent example_runtime example_registry ''user1'' ''   '' [] =
     ([task_tool, email_tool], Inr ''done'')"
  by (simp add: handlePrompt_main_ts_def findRelevantTools_main_ts_def
      select_similar_def similarity_def example_embedding_blank example_pool example_distance
      example_table_def example_distance_def array_splice_def example_get_task_email
      example_merge_blank example_agent_def)

text \<open>
  C4. When the search of a turn fails (the embedding cannot be generated, the query is
  rejected or the pool is missing), \<open>handlePrompt\<close> rethrows the error and leaves
  \<open>pastTools\<close> as it was before the turn. The loop of \<open>main\<close> does not go on after
  it: the process exits with status 1, and no later line is read or processed.
\<close>

theorem failed_turn_keeps_pastTools_and_exits:
  "(finder prompt (defaultTopK config) (defaultSimilarityThreshold config) = Inl e \<longrightarrow>
      handlePrompt config agent userID prompt pastTools finder getMul = (pastTools, Inl e))
   \<and> (generateEmbedding rt line = Inl e \<longrightarrow> findRelevantTools rt line topK threshold = Inl e)
   \<and> (toLowerCase (trim line) \<noteq> ''exit'' \<and> trim line \<noteq> []
        \<and> findRelevantTools rt line (Some (defaultTopK config))
            (Some (defaultSimilarityThreshold config)) = Inl e \<longrightarrow>
        main_loop config agent rt reg pastTools (line # lines) = (Exited 1, [(line, pastTools)]))"
proof (intro conjI impI)
  assume "finder prompt (defaultTopK config) (defaultSimilarityThreshold config) = Inl e"
  then show "handlePrompt config agent userID prompt pastTools finder getMul = (pastTools, Inl e)"
    by (rule handlePrompt_Inl)
next
  assume "generateEmbedding rt line = Inl e"
  then show "findRelevantTools rt line topK threshold = Inl e"
    by (simp add: findRelevantTools_def)
next
  assume a: "toLowerCase (trim line) \<noteq> ''exit'' \<and> trim line \<noteq> []
      \<and> findRelevantTools rt line (Some (defaultTopK config))
          (Some (defaultSimilarityThreshold config)) = Inl e"
  then have "handlePrompt config agent ''user1'' line pastTools
       (\<lambda>prompt topK threshold. findRelevantTools rt prompt (Some topK) (Some threshold))
       (getMultiple reg) = (pastTools, Inl e)"
    by (intro handlePrompt_Inl) simp
  with a show "main_loop config agent rt reg pastTools (line # lines) = (Exited 1, [(line, pastTools)])"
    by (intro main_loop_failed) simp_all
qed

theorem failed_turn_keeps_pastTools_and_exits_witness:
  "toLowerCase (trim ''weather in Boston'') \<noteq> ''exit'' \<and> trim ''weather in Boston'' \<noteq> []
   \<and> generateEmbedding broken_runtime ''weather in Boston'' =
       Inl (Error ''Empty batch returned from embedding model'')
   \<and> findRelevantTools broken_runtime ''weather in Boston'' (Some (defaultTopK example_config))
        (Some (defaultSimilarityThreshold example_config)) =
       Inl (Error ''Empty batch returned from embedding model'')
   \<and> main_loop example_config example_agent broken_runtime example_registry [weather_tool]
        [''weather in Boston'', ''email john''] =
       (Exited 1, [(''weather in Boston'', [weather_tool])])"
proof -
  note C = failed_turn_keeps_pastTools_and_exits
    [where config = example_config
       and e = "Error ''Empty batch returned from embedding model''"
       and rt = broken_runtime and line = "''weather in Boston''"
       and topK = "Some (defaultTopK example_config)"
       and threshold = "Some (defaultSimilarityThreshold example_config)"
       and agent = example_agent and reg = example_registry
       and pastTools = "[weather_tool]" and lines = "[''email john'']"]
  have emb: "generateEmbedding broken_runtime ''weather in Boston'' =
      Inl (Error ''Empty batch returned from embedding model'')"
    by (rule example_embedding_broken)
  with C have find: "findRelevantTools broken_runtime ''weather in Boston''
      (Some (defaultTopK example_config)) (Some (defaultSimilarityThreshold example_config)) =
      Inl (Error ''Empty batch returned from embedding model'')"
    by blast
  with C example_line_weather
  have "main_loop example_config example_agent broken_runtime example_registry [weather_tool]
      [''weather in Boston'', ''email john''] = (Exited 1, [(''weather in Boston'', [weather_tool])])"
    by blast
  with emb find example_line_weather show ?thesis by blast
qed

theorem failed_turn_ends_loop_counterexample:
  "findRelevantTools broken_runtime ''weather in Boston'' (Some (defaultTopK example_config))
     (Some (defaultSimilarityThreshold example_config)) =
     Inl (Error ''Empty batch returned from embedding model'')
   \<and> main_loop example_config example_agent broken_runtime example_registry []
        [''weather in Boston'', ''email john''] = (Exited 1, [(''weather in Boston'', [])])
   \<and> main_loop example_config example_agent example_runtime example_registry []
        [''weather in Boston'', ''email john''] =
       (AwaitingInput, [(''weather in Boston'', [weather_tool]),
                        (''email john'', [weather_tool, email_tool, task_tool])])"
  using example_find_broken [of "''weather in Boston''"] example_run_broken [of "[]" "[''email john'']"]
    example_run
  by simp

text \<open>
  C6. Over the turns of a session, which \<open>main\<close> starts with no tools, the number of
  tools in \<open>pastTools\<close> never goes down from one turn to the next. A single turn on
  tools of different ids keeps or raises the count, and no turn removes an id; the merge
  always yields tools of different ids.
\<close>

theorem session_tool_count_never_decreases:
  "sorted (map (\<lambda>turn. length (snd turn)) (snd (main config agent rt server demoTools lines)))
   \<and> (distinct (map id' pastTools) \<longrightarrow>
        length pastTools \<le>
          length (fst (handlePrompt config agent userID prompt pastTools finder getMul)))
   \<and> id' ` set pastTools \<subseteq>
        id' ` set (fst (handlePrompt config agent userID prompt pastTools finder getMul))
   \<and> distinct (map id' (mergedTools pastTools incoming))"
proof (intro conjI impI)
  have loop: "sorted (map (\<lambda>turn. length (snd turn))
      (snd (main_loop config agent rt' reg [] lines)))" for rt' reg
    using main_loop_lengths [of "[]" config agent rt' reg lines] by simp
  show "sorted (map (\<lambda>turn. length (snd turn))
      (snd (main config agent rt server demoTools lines)))"
    by (simp add: main_def loop split: sum.splits prod.splits option.splits)
  show "length pastTools \<le>
      length (fst (handlePrompt config agent userID prompt pastTools finder getMul))"
    if "distinct (map id' pastTools)"
    using handlePrompt_grows [OF that] by blast
  show "id' ` set pastTools \<subseteq>
      id' ` set (fst (handlePrompt config agent userID prompt pastTools finder getMul))"
    by (rule handlePrompt_keeps_ids)
  show "distinct (map id' (mergedTools pastTools incoming))"
    by (rule mergedTools_distinct)
qed

theorem session_tool_count_never_decreases_witness:
  "distinct (map id' [weather_tool])
   \<and> fst (handlePrompt example_config example_agent ''user1'' ''email john'' [weather_tool]
        example_finder (getMultiple example_registry)) = [weather_tool, email_tool, task_tool]
   \<and> length [weather_tool] \<le>
       length (fst (handlePrompt example_config example_agent ''user1'' ''email john''
         [weather_tool] example_finder (getMultiple example_registry)))"
proof -
  have d: "distinct (map id' [weather_tool])" by simp
  have f: "(\<lambda>prompt topK threshold.
      findRelevantTools example_runtime prompt (Some topK) (Some threshold)) = example_finder"
    by (simp add: example_finder_def fun_eq_iff)
  have t: "fst (handlePrompt example_config example_agent ''user1'' ''email john'' [weather_tool]
      example_finder (getMultiple example_registry)) = [weather_tool, email_tool, task_tool]"
    using example_turn_email by (simp add: f)
  from session_tool_count_never_decreases
    [of example_config example_agent _ _ _ _ "[weather_tool]" "''user1''" "''email john''"
        example_finder "getMultiple example_registry"] d
  have "length [weather_tool] \<le>
      length (fst (handlePrompt example_config example_agent ''user1'' ''email john''
        [weather_tool] example_finder (getMultiple example_registry)))"
    by blast
  with d t show ?thesis by blast
qed

text \<open>
  The lines of the loop of \<open>main\<close>: a line that trims and lower-cases to \<open>exit\<close> ends
  the run with status 0 whatever follows it; a line of white space only changes nothing,
  the run goes on with the next line; any other line is handed to \<open>handlePrompt\<close> once,
  and the run ends there if that fails or goes on with the tools the turn left. Over a
  whole run that does not fail, the lines handled are the lines before the first \<open>exit\<close>
  that are not blank, each once and in order.
\<close>

lemma main_loop_line_dispatch:
  "(toLowerCase (trim line) = ''exit'' \<longrightarrow>
      main_loop config agent rt reg pastTools (line # lines) = (Exited 0, []))
   \<and> (trim line = [] \<longrightarrow>
        main_loop config agent rt reg pastTools (line # lines) =
          main_loop config agent rt reg pastTools lines)
   \<and> (toLowerCase (trim line) \<noteq> ''exit'' \<and> trim line \<noteq> [] \<longrightarrow>
        (\<exists>pastTools' r.
           handlePrompt config agent ''user1'' line pastTools
             (\<lambda>prompt topK threshold. findRelevantTools rt prompt (Some topK) (Some threshold))
             (getMultiple reg) = (pastTools', r)
           \<and> main_loop config agent rt reg pastTools (line # lines) =
               (case r of
                  Inl e \<Rightarrow> (Exited 1, [(line, pastTools')])
                | Inr reply \<Rightarrow>
                    (fst (main_loop config agent rt reg pastTools' lines),
                     (line, pastTools') # snd (main_loop config agent rt reg pastTools' lines)))))
   \<and> (fst (main_loop config agent rt reg pastTools lines) \<noteq> Exited 1 \<longrightarrow>
        map fst (snd (main_loop config agent rt reg pastTools lines)) =
          filter (\<lambda>l. trim l \<noteq> [])
            (takeWhile (\<lambda>l. toLowerCase (trim l) \<noteq> ''exit'') lines))"
proof (intro conjI impI)
  assume "toLowerCase (trim line) = ''exit''"
  then show "main_loop config agent rt reg pastTools (line # lines) = (Exited 0, [])"
    by (rule main_loop_exit)
next
  assume "trim line = []"
  then show "main_loop config agent rt reg pastTools (line # lines) =
      main_loop config agent rt reg pastTools lines"
    by (rule main_loop_blank)
next
  let ?h = "handlePrompt config agent ''user1'' line pastTools
      (\<lambda>prompt topK threshold. findRelevantTools rt prompt (Some topK) (Some threshold))
      (getMultiple reg)"
  assume a: "toLowerCase (trim line) \<noteq> ''exit'' \<and> trim line \<noteq> []"
  obtain pastTools' r where h: "?h = (pastTools', r)" by (cases ?h)
  have "main_loop config agent rt reg pastTools (line # lines) =
      (case r of
         Inl e \<Rightarrow> (Exited 1, [(line, pastTools')])
       | Inr reply \<Rightarrow>
           (fst (main_loop config agent rt reg pastTools' lines),
            (line, pastTools') # snd (main_loop config agent rt reg pastTools' lines)))"
  proof (cases r)
    case (Inl e)
    with a h show ?thesis by (simp add: main_loop_failed del: main_loop.simps)
  next
    case (Inr reply)
    with a h show ?thesis by (simp add: main_loop_turn del: main_loop.simps)
  qed
  with h show "\<exists>pastTools' r. ?h = (pastTools', r)
      \<and> main_loop config agent rt reg pastTools (line # lines) =
          (case r of
             Inl e \<Rightarrow> (Exited 1, [(line, pastTools')])
           | Inr reply \<Rightarrow>
               (fst (main_loop config agent rt reg pastTools' lines),
                (line, pastTools') # snd (main_loop config agent rt reg pastTools' lines)))"
    by blast
next
  assume "fst (main_loop config agent rt reg pastTools lines) \<noteq> Exited 1"
  then show "map fst (snd (main_loop config agent rt reg pastTools lines)) =
      filter (\<lambda>l. trim l \<noteq> []) (takeWhile (\<lambda>l. toLowerCase (trim l) \<noteq> ''exit'') lines)"
    by (rule main_loop_handled)
qed

text \<open>
  The loop of main.ts has no such case for a blank line: whatever the model, the store
  and the registry are, a line of white space only is handed to \<open>handlePrompt\<close>.
\<close>

lemma main_loop_main_ts_blank:
  assumes "trim line = []"
  shows "\<exists>pastTools' ts.
     snd (main_loop_main_ts agent rt reg pastTools (line # lines)) = (line, pastTools') # ts
     \<and> pastTools' = fst (handlePrompt_main_ts agent rt reg ''user1'' line pastTools)"
  using assms by (simp add: toLowerCase_Nil split: prod.splits sum.splits)

text \<open>
  C8 in the loop of main.ts, at a line of three spaces: the line is handed to
  \<open>handlePrompt\<close> and a turn is processed, which selects two tools. The loop of \<open>main\<close>
  in the refactored entry point skips the same line.
\<close>

theorem main_ts_loop_processes_blank_line:
  "trim ''   '' = []
   \<and> main_loop_main_ts example_agent example_runtime example_registry [] [''   ''] =
       (AwaitingInput, [(''   '', [task_tool, email_tool])])
   \<and> main_loop example_config example_agent example_runtime example_registry [] [''   ''] =
       (AwaitingInput, [])"
proof -
  have b: "trim ''   '' = []" "toLowerCase (trim ''   '') \<noteq> ''exit''"
    using example_line_blank by blast+
  have old: "main_loop_main_ts example_agent example_runtime example_registry [] [''   ''] =
      (AwaitingInput, [(''   '', [task_tool, email_tool])])"
    using b(2) by (simp add: example_turn_blank_main_ts)
  have new: "main_loop example_config example_agent example_runtime example_registry []
      [''   ''] = (AwaitingInput, [])"
    unfolding main_loop_blank [OF b(1)] by simp
  from b(1) old new show ?thesis by blast
qed

end
